theory Spec2Isabelle
  imports Main "HOL-Library.Word"
begin

section \<open>The compile facade and evaluation surface of package xpath\<close>

text \<open>
  The development embeds \<^verbatim>\<open>xpath.go\<close>: the compile entry points, the compiled
  expression \<^verbatim>\<open>Expr\<close> and the node iterator. The file calls into parts of the
  package that are declared elsewhere: the function \<^verbatim>\<open>build\<close>, the \<^verbatim>\<open>query\<close>
  interface with its implementations (among them \<^verbatim>\<open>nopQuery\<close>), the parser and its
  scanner, and the hosts' implementations of \<^verbatim>\<open>NodeNavigator\<close>. Each of them is a
  parameter of the functions below, so every theorem holds for whatever these parts do.
\<close>

subsection \<open>Options, package state, errors and panics\<close>

record CompileOptions =
  StrictEOF :: bool

text \<open>
  \<^verbatim>\<open>StrictPreset\<close> is a package-level \<^verbatim>\<open>var\<close>: any code of the process may read
  or assign it. The package state is passed to every compile function and returned by it.
\<close>

record globals =
  StrictPreset :: CompileOptions

definition initial_globals :: globals where
  "initial_globals = \<lparr>StrictPreset = \<lparr>StrictEOF = True\<rparr>\<rparr>"

datatype NodeType = RootNode | ElementNode | AttributeNode | TextNode | CommentNode | allNode

text \<open>A Go \<^verbatim>\<open>error\<close> value, identified by its message.\<close>

datatype error = Error string

datatype panic = NilDereference | SliceBounds | PanicValue error

datatype 'a outcome = Panics panic | Returns 'a

subsection \<open>What \<^verbatim>\<open>build\<close> hands back\<close>

text \<open>
  The item types of the scanner are an enumeration declared with the lexer; the facade
  compares with \<^verbatim>\<open>itemEOF\<close> only. The scanner fields read by the facade are the
  text, the byte offset \<^verbatim>\<open>pos\<close> and the size \<^verbatim>\<open>currSize\<close>, both Go \<^verbatim>\<open>int\<close>.
\<close>

datatype itemType = itemEOF | itemOther nat

record scanner =
  scan_text :: string
  scan_pos :: "64 word"
  scan_currSize :: "64 word"
  scan_typ :: itemType

record parser =
  parser_r :: scanner

text \<open>A namespace map; \<open>None\<close> is the nil map.\<close>

type_synonym namespaces = "(string \<rightharpoonup> string) option"

record 'q Expr =
  expr_s :: string
  expr_q :: "'q option"

text \<open>
  \<^verbatim>\<open>build(expr, namespaces)\<close> returns a query (possibly nil), a parser pointer
  (possibly nil) and an error (possibly nil); it may read and assign the package state.
\<close>

type_synonym 'q builder =
  "string \<Rightarrow> namespaces \<Rightarrow> globals \<Rightarrow> ('q option \<times> parser option \<times> error option) \<times> globals"

text \<open>The slice expression \<^verbatim>\<open>t[i:]\<close> of a string: a run-time panic out of range.\<close>

definition slice_from :: "string \<Rightarrow> int \<Rightarrow> string option" where
  "slice_from t i = (if 0 \<le> i \<and> i \<le> int (length t) then Some (drop (nat i) t) else None)"

text \<open>\<^verbatim>\<open>p.r.text[p.r.pos-p.r.currSize-1:]\<close>, with Go's wrapping 64-bit subtraction.\<close>

definition unconsumed :: "parser \<Rightarrow> string option" where
  "unconsumed p =
     slice_from (scan_text (parser_r p))
       (sint (scan_pos (parser_r p) - scan_currSize (parser_r p) - 1))"

text \<open>\<^verbatim>\<open>p != nil && p.r.typ != itemEOF\<close>\<close>

definition trailing_tokens :: "parser option \<Rightarrow> bool" where
  "trailing_tokens p = (case p of None \<Rightarrow> False | Some pp \<Rightarrow> scan_typ (parser_r pp) \<noteq> itemEOF)"

subsection \<open>The compile entry points\<close>

type_synonym 'q compiled = "('q Expr option \<times> error option) outcome \<times> globals"

definition CompileWithOptionsAndNS ::
  "'q builder \<Rightarrow> string \<Rightarrow> CompileOptions \<Rightarrow> namespaces \<Rightarrow> globals \<Rightarrow> 'q compiled" where
  "CompileWithOptionsAndNS build expr opts nss g =
     (if expr = [] then (Returns (None, Some (Error ''expr expression is nil'')), g)
      else
        (case build expr nss g of
          ((q, p, err), g') \<Rightarrow>
            if err \<noteq> None then (Returns (None, err), g')
            else if StrictEOF opts \<and> trailing_tokens p then
              (case p of
                None \<Rightarrow> (Panics NilDereference, g')
              | Some pp \<Rightarrow>
                  (case unconsumed pp of
                    None \<Rightarrow> (Panics SliceBounds, g')
                  | Some rest \<Rightarrow>
                      (Returns (None,
                         Some (Error (''unexpected token after end of expression: '' @ rest))), g')))
            else if q = None then
              (Returns (None,
                 Some (Error (''undeclared variable in XPath expression: '' @ expr))), g')
            else (Returns (Some \<lparr>expr_s = expr, expr_q = q\<rparr>, None), g')))"

definition Compile :: "'q builder \<Rightarrow> string \<Rightarrow> globals \<Rightarrow> 'q compiled" where
  "Compile build expr g = CompileWithOptionsAndNS build expr \<lparr>StrictEOF = False\<rparr> None g"

definition CompileWithNS :: "'q builder \<Rightarrow> string \<Rightarrow> namespaces \<Rightarrow> globals \<Rightarrow> 'q compiled" where
  "CompileWithNS build expr nss g = CompileWithOptionsAndNS build expr \<lparr>StrictEOF = False\<rparr> nss g"

definition CompileWithOptions ::
  "'q builder \<Rightarrow> string \<Rightarrow> CompileOptions \<Rightarrow> globals \<Rightarrow> 'q compiled" where
  "CompileWithOptions build expr opts g = CompileWithOptionsAndNS build expr opts None g"

definition Expr_String :: "'q Expr \<Rightarrow> string" where
  "Expr_String expr = expr_s expr"

subsection \<open>Queries and navigators\<close>

text \<open>
  A \<^verbatim>\<open>NodeNavigator\<close> is a reference to a mutable cursor object owned by the host.
  The cursors live in a store, a list indexed by address; a navigator value is an address,
  or \<open>None\<close> for the nil interface. Who holds which address is what the aliasing
  questions below are about.

  Modelled from the spec: the \<^verbatim>\<open>query\<close> interface (Advance, Evaluate, Duplicate in the
  spec; \<^verbatim>\<open>Select\<close>, \<^verbatim>\<open>Evaluate\<close>, \<^verbatim>\<open>Clone\<close> at the call sites of this file) and
  \<^verbatim>\<open>nopQuery\<close> are declared outside this file. A plan is a value of type \<open>'q\<close> owned
  by the expression or iterator that holds it. \<^verbatim>\<open>Select\<close> and \<^verbatim>\<open>Evaluate\<close> receive the
  plan, the navigator that the iterator argument reports as \<^verbatim>\<open>Current()\<close> and the store,
  and give back their result, the plan as they leave it and the store as they leave it;
  \<^verbatim>\<open>Clone\<close> gives a plan with iteration state of its own. The two navigator methods
  called in this file are \<^verbatim>\<open>MoveTo\<close> (receiver, argument; the outcome and the receiver
  as left) and \<^verbatim>\<open>Copy\<close> (the state of the new cursor).
\<close>

text \<open>The dynamic type of what \<^verbatim>\<open>query.Evaluate\<close> returns as \<^verbatim>\<open>interface{}\<close>.\<close>

datatype qval = QBool bool | QFloat64 "64 word" | QString string | QQuery | QOther

record ('q, 'n) env =
  query_Select :: "'q \<Rightarrow> nat option \<Rightarrow> 'n list \<Rightarrow> nat option \<times> 'q \<times> 'n list"
  query_Evaluate :: "'q \<Rightarrow> nat option \<Rightarrow> 'n list \<Rightarrow> qval \<times> 'q \<times> 'n list"
  query_Clone :: "'q \<Rightarrow> 'q"
  nopQuery :: 'q
  nav_MoveTo :: "'n \<Rightarrow> 'n \<Rightarrow> bool \<times> 'n"
  nav_Copy :: "'n \<Rightarrow> 'n"

record 'q NodeIterator =
  node :: "nat option"
  query :: "'q option"

datatype 'q result = Scalar qval | Iterator "'q NodeIterator"

text \<open>Reading through a navigator value: nothing behind nil (or a dangling address).\<close>

definition nav_at :: "'n list \<Rightarrow> nat option \<Rightarrow> 'n option" where
  "nav_at \<sigma> ref = (case ref of None \<Rightarrow> None | Some a \<Rightarrow> if a < length \<sigma> then Some (\<sigma> ! a) else None)"

definition NodeIterator_Current :: "'q NodeIterator \<Rightarrow> nat option" where
  "NodeIterator_Current t = node t"

text \<open>
  \<^verbatim>\<open>MoveNext\<close> mutates the iterator and, through the navigators, the store: both are
  returned. \<^verbatim>\<open>n.Copy()\<close> allocates the new cursor at the end of the store.
\<close>

definition NodeIterator_MoveNext ::
  "('q, 'n) env \<Rightarrow> 'q NodeIterator \<Rightarrow> 'n list \<Rightarrow> (bool \<times> 'q NodeIterator \<times> 'n list) outcome" where
  "NodeIterator_MoveNext E t \<sigma> =
     (case query t of
       None \<Rightarrow> Panics NilDereference
     | Some plan \<Rightarrow>
         (case query_Select E plan (NodeIterator_Current t) \<sigma> of
           (n, plan', \<sigma>1) \<Rightarrow>
             (case n of
               None \<Rightarrow> Returns (False, t\<lparr>query := Some plan'\<rparr>, \<sigma>1)
             | Some b \<Rightarrow>
                 (case (node t, nav_at \<sigma>1 (node t), nav_at \<sigma>1 n) of
                   (Some a, Some x, Some y) \<Rightarrow>
                     (case nav_MoveTo E x y of
                       (moved, x') \<Rightarrow>
                         if \<not> moved then
                           (case nav_at (\<sigma>1[a := x']) n of
                             Some y' \<Rightarrow>
                               Returns (True,
                                 t\<lparr>node := Some (length \<sigma>1), query := Some plan'\<rparr>,
                                 \<sigma>1[a := x'] @ [nav_Copy E y'])
                           | None \<Rightarrow> Panics NilDereference)
                         else Returns (True, t\<lparr>query := Some plan'\<rparr>, \<sigma>1[a := x']))
                 | _ \<Rightarrow> Panics NilDereference))))"

definition iteratorFunc_Current :: "(unit \<Rightarrow> nat option) \<Rightarrow> nat option" where
  "iteratorFunc_Current f = f ()"

definition Expr_Select :: "('q, 'n) env \<Rightarrow> 'q Expr \<Rightarrow> nat option \<Rightarrow> 'q NodeIterator outcome" where
  "Expr_Select E expr root =
     (case expr_q expr of
       None \<Rightarrow> Panics NilDereference
     | Some plan \<Rightarrow> Returns \<lparr>node = root, query = Some (query_Clone E plan)\<rparr>)"

text \<open>
  \<^verbatim>\<open>Evaluate\<close> calls \<^verbatim>\<open>expr.q.Evaluate\<close> on the stored plan itself, so the expression is
  returned with the plan as that call leaves it; the clone is taken afterwards.
\<close>

definition Expr_Evaluate ::
  "('q, 'n) env \<Rightarrow> 'q Expr \<Rightarrow> nat option \<Rightarrow> 'n list \<Rightarrow> ('q result \<times> 'q Expr \<times> 'n list) outcome" where
  "Expr_Evaluate E expr root \<sigma> =
     (case expr_q expr of
       None \<Rightarrow> Panics NilDereference
     | Some plan \<Rightarrow>
         (case query_Evaluate E plan (iteratorFunc_Current (\<lambda>_. root)) \<sigma> of
           (val, plan', \<sigma>') \<Rightarrow>
             (case val of
               QQuery \<Rightarrow>
                 Returns (Iterator \<lparr>node = root, query = Some (query_Clone E plan')\<rparr>,
                   expr\<lparr>expr_q := Some plan'\<rparr>, \<sigma>')
             | _ \<Rightarrow> Returns (Scalar val, expr\<lparr>expr_q := Some plan'\<rparr>, \<sigma>'))))"


definition MustCompile ::
  "('q, 'n) env \<Rightarrow> 'q builder \<Rightarrow> string \<Rightarrow> globals \<Rightarrow> 'q Expr option outcome \<times> globals" where
  "MustCompile E build expr g =
     (case Compile build expr g of
       (Panics pv, g') \<Rightarrow> (Panics pv, g')
     | (Returns (exp, err), g') \<Rightarrow>
         if err \<noteq> None then (Returns (Some \<lparr>expr_s = expr, expr_q = Some (nopQuery E)\<rparr>), g')
         else (Returns exp, g'))"

text \<open>The deprecated package-level \<^verbatim>\<open>Select(root, expr)\<close>.\<close>

definition Select ::
  "('q, 'n) env \<Rightarrow> 'q builder \<Rightarrow> nat option \<Rightarrow> string \<Rightarrow> globals \<Rightarrow> 'q NodeIterator outcome \<times> globals" where
  "Select E build root expr g =
     (case Compile build expr g of
       (Panics pv, g') \<Rightarrow> (Panics pv, g')
     | (Returns (exp, err), g') \<Rightarrow>
         (case err of
           Some e \<Rightarrow> (Panics (PanicValue e), g')
         | None \<Rightarrow>
             (case exp of
               None \<Rightarrow> (Panics NilDereference, g')
             | Some ex \<Rightarrow> (Expr_Select E ex root, g'))))"

subsection \<open>A sample instance\<close>

text \<open>
  A small stand-in for the parts outside this file, on which the theorems are exercised
  at concrete inputs. A plan is the list of the navigators it has yet to yield; a cursor
  is a pair of a document and a position in it, and \<^verbatim>\<open>MoveTo\<close> succeeds within one
  document only. \<^verbatim>\<open>Select\<close> works like a following axis: it yields the next of its
  navigators that stands after the current node, and skips the others; \<^verbatim>\<open>Evaluate\<close>
  yields a query, except on the empty plan, which stands for \<^verbatim>\<open>nopQuery\<close> and yields
  nil. The sample builder
  accepts four kinds of input: \<open>''1 1''\<close> parses with a trailing token left, \<open>''$x''\<close> parses
  to no query, \<open>''(''\<close> is a syntax error, and anything else parses completely to a plan
  over the navigator at address 1.
\<close>

fun sample_select ::
  "nat list \<Rightarrow> nat option \<Rightarrow> (nat \<times> nat) list \<Rightarrow> nat option \<times> nat list \<times> (nat \<times> nat) list" where
  "sample_select [] cur \<sigma> = (None, [], \<sigma>)"
| "sample_select (b # bs) cur \<sigma> =
     (case (nav_at \<sigma> cur, nav_at \<sigma> (Some b)) of
       (Some x, Some y) \<Rightarrow> if snd x < snd y then (Some b, bs, \<sigma>) else sample_select bs cur \<sigma>
     | _ \<Rightarrow> sample_select bs cur \<sigma>)"

definition sample_env :: "(nat list, nat \<times> nat) env" where
  "sample_env =
     \<lparr>query_Select = sample_select,
      query_Evaluate = (\<lambda>plan cur \<sigma>. (if plan = [] then QOther else QQuery, plan, \<sigma>)),
      query_Clone = (\<lambda>plan. plan),
      nopQuery = [],
      nav_MoveTo = (\<lambda>x y. if fst x = fst y then (True, y) else (False, x)),
      nav_Copy = (\<lambda>y. y)\<rparr>"

definition sample_parser :: "string \<Rightarrow> itemType \<Rightarrow> parser" where
  "sample_parser t ty =
     \<lparr>parser_r = \<lparr>scan_text = t, scan_pos = of_nat (length t), scan_currSize = 1, scan_typ = ty\<rparr>\<rparr>"

definition sample_build :: "(nat list) builder" where
  "sample_build expr nss g =
     (if expr = ''1 1'' then ((Some [], Some (sample_parser expr (itemOther 0)), None), g)
      else if expr = ''$x'' then ((None, Some (sample_parser expr itemEOF), None), g)
      else if expr = ''('' then ((None, None, Some (Error ''syntax error'')), g)
      else ((Some [1], Some (sample_parser expr itemEOF), None), g))"

section \<open>Theorems\<close>

subsection \<open>The shape of what the facade returns\<close>

lemma compile_no_error_expr:
  "CompileWithOptionsAndNS build e opts nss g = (Returns (ex, None), g')
   \<Longrightarrow> \<exists>c plan. ex = Some c \<and> expr_s c = e \<and> expr_q c = Some plan"
  unfolding CompileWithOptionsAndNS_def
  by (auto split: if_splits prod.splits option.splits)

lemma compile_error_no_expr:
  "CompileWithOptionsAndNS build e opts nss g = (Returns (ex, Some er), g') \<Longrightarrow> ex = None"
  unfolding CompileWithOptionsAndNS_def
  by (auto split: if_splits prod.splits option.splits)

lemma compile_state:
  "snd (CompileWithOptionsAndNS build e opts nss g) = (if e = [] then g else snd (build e nss g))"
  unfolding CompileWithOptionsAndNS_def
  by (auto split: if_splits prod.splits option.splits)

lemma nonstrict_returns:
  "\<exists>ex er g'. CompileWithOptionsAndNS build e \<lparr>StrictEOF = False\<rparr> nss g = (Returns (ex, er), g')"
  unfolding CompileWithOptionsAndNS_def
  by (auto split: if_splits prod.splits option.splits)

lemma sample_build_trailing:
  "sample_build ''1 1'' nss g = ((Some [], Some (sample_parser ''1 1'' (itemOther 0)), None), g)"
  by (simp add: sample_build_def)

lemma sample_build_complete:
  "sample_build ''//a'' nss g = ((Some [1], Some (sample_parser ''//a'' itemEOF), None), g)"
  by (simp add: sample_build_def)

lemma sample_build_error:
  "sample_build ''('' nss g
     = ((None, None, Some (Error ''syntax error'')), g)"
  by (simp add: sample_build_def)

lemma sample_build_variable:
  "sample_build ''$x'' nss g = ((None, Some (sample_parser ''$x'' itemEOF), None), g)"
  by (simp add: sample_build_def)

lemma sample_unconsumed:
  "unconsumed (sample_parser ''1 1'' (itemOther 0)) = Some '' 1''"
  by (simp add: unconsumed_def sample_parser_def slice_from_def)

lemma sample_compile_error:
  "CompileWithOptionsAndNS sample_build ''('' opts nss g
     = (Returns (None, Some (Error ''syntax error'')), g)"
  by (simp add: CompileWithOptionsAndNS_def sample_build_error)

lemma sample_compile_variable:
  "CompileWithOptionsAndNS sample_build ''$x'' opts nss g
     = (Returns (None, Some (Error ''undeclared variable in XPath expression: $x'')), g)"
  by (simp add: CompileWithOptionsAndNS_def sample_build_variable trailing_tokens_def
      sample_parser_def)

lemma sample_compile_complete:
  "CompileWithOptionsAndNS sample_build ''//a'' opts nss g
     = (Returns (Some \<lparr>expr_s = ''//a'', expr_q = Some [1]\<rparr>, None), g)"
  by (simp add: CompileWithOptionsAndNS_def sample_build_complete trailing_tokens_def
      sample_parser_def)

subsection \<open>Advancing an iterator, case by case\<close>

lemma Compile_cases:
  "(\<exists>c plan g'. Compile build e g = (Returns (Some c, None), g') \<and> expr_s c = e \<and> expr_q c = Some plan)
   \<or> (\<exists>er g'. Compile build e g = (Returns (None, Some er), g'))"
proof -
  obtain ex er g' where r: "Compile build e g = (Returns (ex, er), g')"
    unfolding Compile_def using nonstrict_returns by blast
  show ?thesis
  proof (cases er)
    case None
    with r compile_no_error_expr [of build e _ _ g ex g'] show ?thesis
      unfolding Compile_def by auto
  next
    case (Some x)
    with r compile_error_no_expr [of build e _ _ g ex x g'] show ?thesis
      unfolding Compile_def by auto
  qed
qed

lemma MoveNext_exhausted:
  "query t = Some plan \<Longrightarrow> query_Select E plan (node t) \<sigma> = (None, plan', \<sigma>1)
   \<Longrightarrow> NodeIterator_MoveNext E t \<sigma> = Returns (False, t\<lparr>query := Some plan'\<rparr>, \<sigma>1)"
  by (simp add: NodeIterator_MoveNext_def NodeIterator_Current_def)

lemma MoveNext_moved:
  "query t = Some plan \<Longrightarrow> query_Select E plan (node t) \<sigma> = (Some b, plan', \<sigma>1)
   \<Longrightarrow> node t = Some a \<Longrightarrow> nav_at \<sigma>1 (Some a) = Some x \<Longrightarrow> nav_at \<sigma>1 (Some b) = Some y
   \<Longrightarrow> nav_MoveTo E x y = (True, x')
   \<Longrightarrow> NodeIterator_MoveNext E t \<sigma> = Returns (True, t\<lparr>query := Some plan'\<rparr>, \<sigma>1[a := x'])"
  by (simp add: NodeIterator_MoveNext_def NodeIterator_Current_def)

lemma MoveNext_copied:
  "query t = Some plan \<Longrightarrow> query_Select E plan (node t) \<sigma> = (Some b, plan', \<sigma>1)
   \<Longrightarrow> node t = Some a \<Longrightarrow> nav_at \<sigma>1 (Some a) = Some x \<Longrightarrow> nav_at \<sigma>1 (Some b) = Some y
   \<Longrightarrow> nav_MoveTo E x y = (False, x')
   \<Longrightarrow> NodeIterator_MoveNext E t \<sigma>
       = Returns (True, t\<lparr>node := Some (length \<sigma>1), query := Some plan'\<rparr>,
           \<sigma>1[a := x'] @ [nav_Copy E (if a = b then x' else y)])"
  by (auto simp add: NodeIterator_MoveNext_def NodeIterator_Current_def nav_at_def
      split: if_splits)

lemma MoveNext_frame:
  assumes "query t = Some plan"
    and "query_Select E plan (node t) \<sigma> = (n, plan1, \<sigma>1)"
    and "NodeIterator_MoveNext E t \<sigma> = Returns (r, t', \<sigma>')"
    and "c < length \<sigma>1" and "node t \<noteq> Some c"
  shows "nav_at \<sigma>' (Some c) = nav_at \<sigma>1 (Some c)"
  using assms
  by (auto simp: NodeIterator_MoveNext_def NodeIterator_Current_def nav_at_def nth_append
      split: option.splits prod.splits if_splits)

lemma sample_Select:
  "Expr_Select sample_env \<lparr>expr_s = ''//a'', expr_q = Some [1]\<rparr> (Some 0)
     = Returns \<lparr>node = Some 0, query = Some [1]\<rparr>"
  by (simp add: Expr_Select_def sample_env_def)

lemma sample_MoveNext_first:
  "NodeIterator_MoveNext sample_env \<lparr>node = Some 0, query = Some [1]\<rparr> [(0, 0), (0, 5)]
     = Returns (True, \<lparr>node = Some 0, query = Some []\<rparr>, [(0, 5), (0, 5)])"
  by (simp add: NodeIterator_MoveNext_def NodeIterator_Current_def sample_env_def nav_at_def)

lemma sample_MoveNext_after:
  "NodeIterator_MoveNext sample_env \<lparr>node = Some 0, query = Some [1]\<rparr> [(0, 5), (0, 5)]
     = Returns (False, \<lparr>node = Some 0, query = Some []\<rparr>, [(0, 5), (0, 5)])"
  by (simp add: NodeIterator_MoveNext_def NodeIterator_Current_def sample_env_def nav_at_def)

lemma sample_MoveNext_copy:
  "NodeIterator_MoveNext sample_env \<lparr>node = Some 0, query = Some [1]\<rparr> [(1, 0), (0, 5)]
     = Returns (True, \<lparr>node = Some 2, query = Some []\<rparr>, [(1, 0), (0, 5), (0, 5)])"
  by (simp add: NodeIterator_MoveNext_def NodeIterator_Current_def sample_env_def nav_at_def)

lemma sample_contract:
  "(\<forall>u v w. nav_MoveTo sample_env u v = (True, w) \<longrightarrow> snd w = snd v)
   \<and> (\<forall>u v w. nav_MoveTo sample_env u v = (False, w) \<longrightarrow> snd w = snd u)
   \<and> (\<forall>v. snd (nav_Copy sample_env v) = snd v)"
  by (auto simp: sample_env_def split: if_splits)

subsection \<open>The claims\<close>

text \<open>
  C1. Whatever the options, the namespace map (nil included), the builder and the package
  state, each of the four compile entry points returns, for the empty string, the error
  "expr expression is nil" and a nil expression; the package state is left as found.
\<close>

theorem compile_empty_expression:
  "CompileWithOptionsAndNS build [] opts nss g
     = (Returns (None, Some (Error ''expr expression is nil'')), g)
   \<and> CompileWithOptions build [] opts g
     = (Returns (None, Some (Error ''expr expression is nil'')), g)
   \<and> CompileWithNS build [] nss g
     = (Returns (None, Some (Error ''expr expression is nil'')), g)
   \<and> Compile build [] g
     = (Returns (None, Some (Error ''expr expression is nil'')), g)"
  unfolding Compile_def CompileWithNS_def CompileWithOptions_def CompileWithOptionsAndNS_def
  by simp

text \<open>
  C2. Let \<^verbatim>\<open>build\<close> return the query \<open>q\<close>, the parser \<open>p\<close> and the error \<open>err\<close>.
  When the parser left no trailing token, compiling with and without \<^verbatim>\<open>StrictEOF\<close> gives
  the same result. When parsing succeeded (a query, no error) and the scanner stands on a
  token other than the end marker, compiling without \<^verbatim>\<open>StrictEOF\<close> returns the
  expression, and compiling with it returns the error "unexpected token after end of
  expression: ..." followed by the text from offset \<^verbatim>\<open>pos - currSize - 1\<close> on, and no
  expression. The slice of line 183 is part of the model: were that offset outside the
  text, the strict compilation would panic there instead of returning.
\<close>

theorem strict_eof_compilation:
  assumes "build expr nss g = ((q, p, err), g')"
  shows "(\<not> trailing_tokens p \<longrightarrow>
            CompileWithOptionsAndNS build expr \<lparr>StrictEOF = True\<rparr> nss g
              = CompileWithOptionsAndNS build expr \<lparr>StrictEOF = False\<rparr> nss g)
       \<and> (\<forall>plan pp. expr \<noteq> [] \<and> err = None \<and> q = Some plan \<and> p = Some pp
              \<and> scan_typ (parser_r pp) \<noteq> itemEOF \<longrightarrow>
            CompileWithOptionsAndNS build expr \<lparr>StrictEOF = False\<rparr> nss g
              = (Returns (Some \<lparr>expr_s = expr, expr_q = Some plan\<rparr>, None), g')
            \<and> CompileWithOptionsAndNS build expr \<lparr>StrictEOF = True\<rparr> nss g
              = (case unconsumed pp of
                   Some rest \<Rightarrow>
                     (Returns (None,
                        Some (Error (''unexpected token after end of expression: '' @ rest))), g')
                 | None \<Rightarrow> (Panics SliceBounds, g')))"
  using assms unfolding CompileWithOptionsAndNS_def trailing_tokens_def
  by (auto split: option.splits)

theorem strict_eof_compilation_witness:
  "CompileWithOptionsAndNS sample_build ''1 1'' \<lparr>StrictEOF = False\<rparr> None initial_globals
     = (Returns (Some \<lparr>expr_s = ''1 1'', expr_q = Some []\<rparr>, None), initial_globals)
   \<and> CompileWithOptionsAndNS sample_build ''1 1'' \<lparr>StrictEOF = True\<rparr> None initial_globals
     = (Returns (None, Some (Error ''unexpected token after end of expression:  1'')),
        initial_globals)
   \<and> CompileWithOptionsAndNS sample_build ''//a'' \<lparr>StrictEOF = True\<rparr> None initial_globals
     = CompileWithOptionsAndNS sample_build ''//a'' \<lparr>StrictEOF = False\<rparr> None initial_globals"
proof -
  have ty: "scan_typ (parser_r (sample_parser ''1 1'' (itemOther 0))) \<noteq> itemEOF"
    by (simp add: sample_parser_def)
  have eof: "\<not> trailing_tokens (Some (sample_parser ''//a'' itemEOF))"
    by (simp add: trailing_tokens_def sample_parser_def)
  from strict_eof_compilation
    [where build = sample_build and expr = "''1 1''" and nss = None and g = initial_globals,
     OF sample_build_trailing] ty
  have a: "CompileWithOptionsAndNS sample_build ''1 1'' \<lparr>StrictEOF = False\<rparr> None initial_globals
       = (Returns (Some \<lparr>expr_s = ''1 1'', expr_q = Some []\<rparr>, None), initial_globals)"
    and b: "CompileWithOptionsAndNS sample_build ''1 1'' \<lparr>StrictEOF = True\<rparr> None initial_globals
     = (Returns (None, Some (Error ''unexpected token after end of expression:  1'')),
        initial_globals)"
    by (simp_all add: sample_unconsumed)
  from strict_eof_compilation
    [where build = sample_build and expr = "''//a''" and nss = None and g = initial_globals,
     OF sample_build_complete] eof
  have c: "CompileWithOptionsAndNS sample_build ''//a'' \<lparr>StrictEOF = True\<rparr> None initial_globals
     = CompileWithOptionsAndNS sample_build ''//a'' \<lparr>StrictEOF = False\<rparr> None initial_globals"
    by simp
  from a b c show ?thesis by simp
qed

text \<open>
  C7. Whenever one of the four compile entry points returns an error, the expression it
  returns is nil. The facade itself assigns no package state: the state after the call is
  the one \<^verbatim>\<open>build\<close> left (the initial one when the expression is empty and \<^verbatim>\<open>build\<close>
  is not called), so with a builder that leaves the state alone a compilation leaves it
  alone.
\<close>

theorem failed_compile_yields_no_expression:
  "(\<forall>ex er g'. CompileWithOptionsAndNS build e opts nss g = (Returns (ex, Some er), g')
       \<longrightarrow> ex = None)
   \<and> (\<forall>ex er g'. CompileWithOptions build e opts g = (Returns (ex, Some er), g') \<longrightarrow> ex = None)
   \<and> (\<forall>ex er g'. CompileWithNS build e nss g = (Returns (ex, Some er), g') \<longrightarrow> ex = None)
   \<and> (\<forall>ex er g'. Compile build e g = (Returns (ex, Some er), g') \<longrightarrow> ex = None)
   \<and> snd (CompileWithOptionsAndNS build e opts nss g)
        = (if e = [] then g else snd (build e nss g))
   \<and> snd (CompileWithOptionsAndNS (\<lambda>x n s. (b x n, s)) e opts nss g) = g"
proof -
  have 1: "\<forall>ex er g'. CompileWithOptionsAndNS build e opts nss g = (Returns (ex, Some er), g')
       \<longrightarrow> ex = None" for opts nss
    using compile_error_no_expr by blast
  have 2: "snd (CompileWithOptionsAndNS (\<lambda>x n s. (b x n, s)) e opts nss g) = g"
    by (simp add: compile_state)
  show ?thesis
    unfolding Compile_def CompileWithNS_def CompileWithOptions_def
    using 1 2 compile_state [of build e opts nss g] by simp
qed

theorem failed_compile_yields_no_expression_witness:
  "CompileWithOptionsAndNS sample_build ''('' \<lparr>StrictEOF = True\<rparr> None initial_globals
     = (Returns (None, Some (Error ''syntax error'')), initial_globals)
   \<and> Compile sample_build ''$x'' initial_globals
     = (Returns (None, Some (Error ''undeclared variable in XPath expression: $x'')),
        initial_globals)"
proof -
  obtain ex1 where a:
    "CompileWithOptionsAndNS sample_build ''('' \<lparr>StrictEOF = True\<rparr> None initial_globals
       = (Returns (ex1, Some (Error ''syntax error'')), initial_globals)"
    by (simp add: sample_compile_error)
  obtain ex2 where b:
    "Compile sample_build ''$x'' initial_globals
       = (Returns (ex2, Some (Error ''undeclared variable in XPath expression: $x'')),
          initial_globals)"
    by (simp add: Compile_def sample_compile_variable)
  from failed_compile_yields_no_expression
    [of sample_build "''(''" "\<lparr>StrictEOF = True\<rparr>" None initial_globals] a
  have "ex1 = None" by blast
  moreover from failed_compile_yields_no_expression
    [of sample_build "''$x''" _ _ initial_globals] b
  have "ex2 = None" by blast
  ultimately show ?thesis using a b by simp
qed

text \<open>
  C8. \<^verbatim>\<open>Compile\<close>, \<^verbatim>\<open>CompileWithNS\<close> and \<^verbatim>\<open>CompileWithOptions\<close> return what
  \<^verbatim>\<open>CompileWithOptionsAndNS\<close> returns with the zero options value and the nil map filled in
  for the arguments they lack, in every package state. The facade reads \<^verbatim>\<open>StrictPreset\<close>
  nowhere: with a builder that does not touch the package state, the result is the same in
  any two package states, and the state is handed back as found.
\<close>

theorem compile_ignores_StrictPreset:
  "Compile build e g = CompileWithOptionsAndNS build e \<lparr>StrictEOF = False\<rparr> None g
   \<and> CompileWithNS build e nss g = CompileWithOptionsAndNS build e \<lparr>StrictEOF = False\<rparr> nss g
   \<and> CompileWithOptions build e opts g = CompileWithOptionsAndNS build e opts None g
   \<and> fst (CompileWithOptionsAndNS (\<lambda>x n s. (b x n, s)) e opts nss g)
       = fst (CompileWithOptionsAndNS (\<lambda>x n s. (b x n, s)) e opts nss g2)
   \<and> snd (CompileWithOptionsAndNS (\<lambda>x n s. (b x n, s)) e opts nss g) = g"
proof -
  obtain q p err where r: "b e nss = (q, p, err)"
    by (cases "b e nss") auto
  have "fst (CompileWithOptionsAndNS (\<lambda>x n s. (b x n, s)) e opts nss g)
       = fst (CompileWithOptionsAndNS (\<lambda>x n s. (b x n, s)) e opts nss g2)"
    unfolding CompileWithOptionsAndNS_def using r
    by (simp split: option.splits)
  moreover have "snd (CompileWithOptionsAndNS (\<lambda>x n s. (b x n, s)) e opts nss g) = g"
    by (simp add: compile_state)
  ultimately show ?thesis
    by (simp add: Compile_def CompileWithNS_def CompileWithOptions_def)
qed

text \<open>
  C3. \<^verbatim>\<open>MustCompile\<close> always returns an expression, never nil and never a panic, and it
  has no error result. When \<^verbatim>\<open>Compile\<close> succeeds the expression is the one \<^verbatim>\<open>Compile\<close>
  returns; when \<^verbatim>\<open>Compile\<close> fails it is the fallback holding the source text and
  \<^verbatim>\<open>nopQuery\<close>. In both cases \<^verbatim>\<open>String()\<close> gives the source text back. \<^verbatim>\<open>nopQuery\<close>
  is declared outside this file: provided it clones to itself and its \<^verbatim>\<open>Select\<close> yields
  nothing, every iterator over the fallback reports exhaustion at once.
\<close>

theorem MustCompile_never_fails:
  "\<exists>ex. fst (MustCompile E build e g) = Returns (Some ex)
     \<and> snd (MustCompile E build e g) = snd (Compile build e g)
     \<and> Expr_String ex = e
     \<and> (\<forall>c g'. Compile build e g = (Returns (Some c, None), g') \<longrightarrow> ex = c)
     \<and> (\<forall>c er g'. Compile build e g = (Returns (c, Some er), g') \<longrightarrow>
           ex = \<lparr>expr_s = e, expr_q = Some (nopQuery E)\<rparr>
           \<and> (query_Clone E (nopQuery E) = nopQuery E
               \<and> (\<forall>cur \<sigma>. query_Select E (nopQuery E) cur \<sigma> = (None, nopQuery E, \<sigma>)) \<longrightarrow>
              (\<forall>root \<sigma>. \<exists>it. Expr_Select E ex root = Returns it
                 \<and> NodeIterator_MoveNext E it \<sigma> = Returns (False, it, \<sigma>))))"
proof -
  from Compile_cases [of build e g] show ?thesis
  proof
    assume "\<exists>c plan g'. Compile build e g = (Returns (Some c, None), g') \<and> expr_s c = e
        \<and> expr_q c = Some plan"
    then obtain c g' where c: "Compile build e g = (Returns (Some c, None), g')"
      and s: "expr_s c = e" by blast
    show ?thesis
      by (rule exI [of _ c]) (simp add: MustCompile_def c s Expr_String_def)
  next
    assume "\<exists>er g'. Compile build e g = (Returns (None, Some er), g')"
    then obtain er g' where c: "Compile build e g = (Returns (None, Some er), g')" by blast
    let ?fb = "\<lparr>expr_s = e, expr_q = Some (nopQuery E)\<rparr>"
    have "NodeIterator_MoveNext E \<lparr>node = root, query = Some (nopQuery E)\<rparr> \<sigma>
        = Returns (False, \<lparr>node = root, query = Some (nopQuery E)\<rparr>, \<sigma>)"
      if "\<forall>cur \<sigma>. query_Select E (nopQuery E) cur \<sigma> = (None, nopQuery E, \<sigma>)" for root \<sigma>
      using that MoveNext_exhausted [of "\<lparr>node = root, query = Some (nopQuery E)\<rparr>" "nopQuery E" E \<sigma> "nopQuery E" \<sigma>]
      by simp
    then show ?thesis
      by (intro exI [of _ ?fb]) (simp add: MustCompile_def c Expr_String_def Expr_Select_def)
  qed
qed

theorem MustCompile_never_fails_witness:
  "fst (MustCompile sample_env sample_build ''('' initial_globals)
     = Returns (Some \<lparr>expr_s = ''('', expr_q = Some []\<rparr>)
   \<and> Expr_String \<lparr>expr_s = ''('', expr_q = Some ([]::nat list)\<rparr> = ''(''
   \<and> NodeIterator_MoveNext sample_env \<lparr>node = Some 0, query = Some []\<rparr> [(0, 0), (0, 5)]
     = Returns (False, \<lparr>node = Some 0, query = Some []\<rparr>, [(0, 0), (0, 5)])"
proof -
  have c: "Compile sample_build ''('' initial_globals
      = (Returns (None, Some (Error ''syntax error'')), initial_globals)"
    by (simp add: Compile_def sample_compile_error)
  have n: "nopQuery sample_env = []" "query_Clone sample_env [] = []"
    "\<forall>cur \<sigma>. query_Select sample_env [] cur \<sigma> = (None, [], \<sigma>)"
    by (simp_all add: sample_env_def)
  from MustCompile_never_fails [of sample_env sample_build "''(''" initial_globals]
  obtain ex where r: "fst (MustCompile sample_env sample_build ''('' initial_globals)
        = Returns (Some ex)"
    and s: "Expr_String ex = ''(''"
    and f: "\<forall>c er g'. Compile sample_build ''('' initial_globals = (Returns (c, Some er), g') \<longrightarrow>
           ex = \<lparr>expr_s = ''('', expr_q = Some (nopQuery sample_env)\<rparr>
           \<and> (query_Clone sample_env (nopQuery sample_env) = nopQuery sample_env
               \<and> (\<forall>cur \<sigma>. query_Select sample_env (nopQuery sample_env) cur \<sigma>
                     = (None, nopQuery sample_env, \<sigma>)) \<longrightarrow>
              (\<forall>root \<sigma>. \<exists>it. Expr_Select sample_env ex root = Returns it
                 \<and> NodeIterator_MoveNext sample_env it \<sigma> = Returns (False, it, \<sigma>)))"
    by blast
  from f c n have e: "ex = \<lparr>expr_s = ''('', expr_q = Some []\<rparr>"
    and "\<forall>root \<sigma>. \<exists>it. Expr_Select sample_env ex root = Returns it
                 \<and> NodeIterator_MoveNext sample_env it \<sigma> = Returns (False, it, \<sigma>)"
    by auto
  then obtain it where "Expr_Select sample_env ex (Some 0) = Returns it"
    and m: "NodeIterator_MoveNext sample_env it [(0, 0), (0, 5)] = Returns (False, it, [(0, 0), (0, 5)])"
    by blast
  with e n have "it = \<lparr>node = Some 0, query = Some []\<rparr>"
    by (simp add: Expr_Select_def)
  with m r s e show ?thesis by simp
qed

text \<open>
  C4, as amended. For an expression holding a plan, \<^verbatim>\<open>Expr.Select\<close> and the node-set
  branch of \<^verbatim>\<open>Expr.Evaluate\<close> pair a clone of the plan with the navigator the caller
  supplied, the very instance and not a \<^verbatim>\<open>Copy\<close> of it: \<^verbatim>\<open>Current\<close> of the new iterator
  is the caller's navigator. When the iterator is advanced onto a match and \<^verbatim>\<open>MoveTo\<close>
  succeeds, the caller's navigator is the one repositioned.
\<close>

theorem Select_pairs_clone_with_callers_navigator:
  assumes "expr_q expr = Some plan"
  shows "Expr_Select E expr root = Returns \<lparr>node = root, query = Some (query_Clone E plan)\<rparr>
     \<and> NodeIterator_Current \<lparr>node = root, query = Some (query_Clone E plan)\<rparr> = root
     \<and> (\<forall>plan' \<sigma>'. query_Evaluate E plan root \<sigma> = (QQuery, plan', \<sigma>') \<longrightarrow>
          (\<exists>expr'. Expr_Evaluate E expr root \<sigma>
             = Returns (Iterator \<lparr>node = root, query = Some (query_Clone E plan')\<rparr>, expr', \<sigma>')))
     \<and> (\<forall>a b x y x' plan1 \<sigma>1.
          root = Some a \<and> query_Select E (query_Clone E plan) root \<sigma> = (Some b, plan1, \<sigma>1)
          \<and> nav_at \<sigma>1 root = Some x \<and> nav_at \<sigma>1 (Some b) = Some y
          \<and> nav_MoveTo E x y = (True, x') \<longrightarrow>
          NodeIterator_MoveNext E \<lparr>node = root, query = Some (query_Clone E plan)\<rparr> \<sigma>
            = Returns (True, \<lparr>node = root, query = Some plan1\<rparr>, \<sigma>1[a := x'])
          \<and> nav_at (\<sigma>1[a := x']) root = Some x')"
proof (intro conjI allI impI)
  show "Expr_Select E expr root = Returns \<lparr>node = root, query = Some (query_Clone E plan)\<rparr>"
    using assms by (simp add: Expr_Select_def)
  show "NodeIterator_Current \<lparr>node = root, query = Some (query_Clone E plan)\<rparr> = root"
    by (simp add: NodeIterator_Current_def)
next
  fix plan' \<sigma>'
  assume "query_Evaluate E plan root \<sigma> = (QQuery, plan', \<sigma>')"
  with assms show "\<exists>expr'. Expr_Evaluate E expr root \<sigma>
             = Returns (Iterator \<lparr>node = root, query = Some (query_Clone E plan')\<rparr>, expr', \<sigma>')"
    by (simp add: Expr_Evaluate_def iteratorFunc_Current_def)
next
  fix a b x y x' plan1 \<sigma>1
  assume h: "root = Some a \<and> query_Select E (query_Clone E plan) root \<sigma> = (Some b, plan1, \<sigma>1)
          \<and> nav_at \<sigma>1 root = Some x \<and> nav_at \<sigma>1 (Some b) = Some y
          \<and> nav_MoveTo E x y = (True, x')"
  then have r: "root = Some a"
    and s: "query_Select E (query_Clone E plan) (Some a) \<sigma> = (Some b, plan1, \<sigma>1)"
    and x: "nav_at \<sigma>1 (Some a) = Some x" and y: "nav_at \<sigma>1 (Some b) = Some y"
    and m: "nav_MoveTo E x y = (True, x')"
    by auto
  have "NodeIterator_MoveNext E \<lparr>node = Some a, query = Some (query_Clone E plan)\<rparr> \<sigma>
      = Returns (True, \<lparr>node = Some a, query = Some (query_Clone E plan)\<rparr>\<lparr>query := Some plan1\<rparr>,
          \<sigma>1[a := x'])"
    using MoveNext_moved
      [of "\<lparr>node = Some a, query = Some (query_Clone E plan)\<rparr>" "query_Clone E plan" E \<sigma> b
        plan1 \<sigma>1 a x y x'] s x y m
    by simp
  then show "NodeIterator_MoveNext E \<lparr>node = root, query = Some (query_Clone E plan)\<rparr> \<sigma>
            = Returns (True, \<lparr>node = root, query = Some plan1\<rparr>, \<sigma>1[a := x'])"
    using r by simp
  from x r show "nav_at (\<sigma>1[a := x']) root = Some x'"
    by (auto simp: nav_at_def split: if_splits)
qed

theorem Select_pairs_clone_with_callers_navigator_witness:
  "Expr_Select sample_env \<lparr>expr_s = ''//a'', expr_q = Some [1]\<rparr> (Some 0)
     = Returns \<lparr>node = Some 0, query = Some [1]\<rparr>
   \<and> NodeIterator_MoveNext sample_env \<lparr>node = Some 0, query = Some [1]\<rparr> [(0, 0), (0, 5)]
     = Returns (True, \<lparr>node = Some 0, query = Some []\<rparr>, [(0, 5), (0, 5)])"
proof -
  have q: "expr_q \<lparr>expr_s = ''//a'', expr_q = Some [1::nat]\<rparr> = Some [1]" by simp
  have c: "query_Clone sample_env [1::nat] = [1]" by (simp add: sample_env_def)
  have s: "query_Select sample_env [1] (Some 0) [(0, 0), (0, 5)] = (Some 1, [], [(0, 0), (0, 5)])"
    by (simp add: sample_env_def nav_at_def)
  have m: "nav_MoveTo sample_env (0, 0) (0, 5) = (True, (0::nat, 5::nat))"
    by (simp add: sample_env_def)
  have n: "nav_at [(0, 0), (0, 5)] (Some 0) = Some (0::nat, 0::nat)"
    "nav_at [(0, 0), (0, 5)] (Some 1) = Some (0::nat, 5::nat)"
    by (simp_all add: nav_at_def)
  from Select_pairs_clone_with_callers_navigator
    [OF q, of sample_env "Some 0" "[(0, 0), (0, 5)]"] c s m n
  show ?thesis by auto
qed

text \<open>
  The claim as stated, that the iterator holds a duplicate and that advancing it never
  repositions the caller's navigator, fails: the expression compiled from \<open>''//a''\<close> is
  selected from the navigator at address 0, which stands at position 0 of document 0; the
  iterator holds address 0 itself, and one \<^verbatim>\<open>MoveNext\<close> leaves that navigator at
  position 5.
\<close>

theorem Select_copies_cursor_counterexample:
  "Compile sample_build ''//a'' initial_globals
     = (Returns (Some \<lparr>expr_s = ''//a'', expr_q = Some [1]\<rparr>, None), initial_globals)
   \<and> Expr_Select sample_env \<lparr>expr_s = ''//a'', expr_q = Some [1]\<rparr> (Some 0)
     = Returns \<lparr>node = Some 0, query = Some [1]\<rparr>
   \<and> NodeIterator_Current \<lparr>node = Some 0, query = Some [1::nat]\<rparr> = Some 0
   \<and> nav_at [(0, 0), (0, 5)] (Some 0) = Some (0::nat, 0::nat)
   \<and> NodeIterator_MoveNext sample_env \<lparr>node = Some 0, query = Some [1]\<rparr> [(0, 0), (0, 5)]
     = Returns (True, \<lparr>node = Some 0, query = Some []\<rparr>, [(0, 5), (0, 5)])
   \<and> nav_at [(0, 5), (0, 5)] (Some 0) = Some (0::nat, 5::nat)"
  using sample_compile_complete [of "\<lparr>StrictEOF = False\<rparr>" None initial_globals]
    sample_Select sample_MoveNext_first
  by (simp add: Compile_def NodeIterator_Current_def nav_at_def)

text \<open>
  C5, as amended. For an expression holding a plan, every \<^verbatim>\<open>Expr.Select\<close>, and the
  node-set branch of \<^verbatim>\<open>Expr.Evaluate\<close>, builds its iterator over a clone of the stored plan
  and the caller's navigator; \<^verbatim>\<open>Select\<close> leaves the expression as it is, and
  \<^verbatim>\<open>Evaluate\<close> keeps the source text and stores the plan as the plan's own \<^verbatim>\<open>Evaluate\<close>
  left it. Advancing an iterator replaces its own plan clone only and, beyond what the
  query's \<^verbatim>\<open>Select\<close> does to the store, writes to no navigator that existed before other
  than the one the iterator holds. So two iterators are independent when they hold different
  navigators; two iterators selected from the same navigator share it.
\<close>

theorem iterators_over_clones_of_stored_plan:
  assumes "expr_q expr = Some plan"
  shows "Expr_Select E expr root = Returns \<lparr>node = root, query = Some (query_Clone E plan)\<rparr>
     \<and> (\<forall>plan' \<sigma>'. query_Evaluate E plan root \<sigma> = (QQuery, plan', \<sigma>') \<longrightarrow>
          Expr_Evaluate E expr root \<sigma>
            = Returns (Iterator \<lparr>node = root, query = Some (query_Clone E plan')\<rparr>,
                \<lparr>expr_s = expr_s expr, expr_q = Some plan'\<rparr>, \<sigma>'))
     \<and> (\<forall>t pl n plan1 \<sigma>1 r t' \<sigma>' c.
          query t = Some pl \<and> query_Select E pl (node t) \<sigma> = (n, plan1, \<sigma>1)
          \<and> NodeIterator_MoveNext E t \<sigma> = Returns (r, t', \<sigma>')
          \<and> c < length \<sigma>1 \<and> node t \<noteq> Some c \<longrightarrow>
          query t' = Some plan1 \<and> nav_at \<sigma>' (Some c) = nav_at \<sigma>1 (Some c))"
proof (intro conjI allI impI)
  show "Expr_Select E expr root = Returns \<lparr>node = root, query = Some (query_Clone E plan)\<rparr>"
    using assms by (simp add: Expr_Select_def)
next
  fix plan' \<sigma>'
  assume "query_Evaluate E plan root \<sigma> = (QQuery, plan', \<sigma>')"
  with assms show "Expr_Evaluate E expr root \<sigma>
            = Returns (Iterator \<lparr>node = root, query = Some (query_Clone E plan')\<rparr>,
                \<lparr>expr_s = expr_s expr, expr_q = Some plan'\<rparr>, \<sigma>')"
    by (simp add: Expr_Evaluate_def iteratorFunc_Current_def)
next
  fix t :: "'a NodeIterator" and pl n plan1 \<sigma>1 r t' \<sigma>' c
  assume h: "query t = Some pl \<and> query_Select E pl (node t) \<sigma> = (n, plan1, \<sigma>1)
          \<and> NodeIterator_MoveNext E t \<sigma> = Returns (r, t', \<sigma>')
          \<and> c < length \<sigma>1 \<and> node t \<noteq> Some c"
  then show "nav_at \<sigma>' (Some c) = nav_at \<sigma>1 (Some c)"
    using MoveNext_frame [of t pl E \<sigma> n plan1 \<sigma>1 r t' \<sigma>' c] by simp
  from h show "query t' = Some plan1"
    by (auto simp: NodeIterator_MoveNext_def NodeIterator_Current_def
      split: option.splits prod.splits if_splits)
qed

theorem iterators_over_clones_of_stored_plan_witness:
  "Expr_Select sample_env \<lparr>expr_s = ''//a'', expr_q = Some [1]\<rparr> (Some 0)
     = Returns \<lparr>node = Some 0, query = Some [1]\<rparr>
   \<and> Expr_Evaluate sample_env \<lparr>expr_s = ''//a'', expr_q = Some [1]\<rparr> (Some 0) [(0, 0), (0, 5)]
     = Returns (Iterator \<lparr>node = Some 0, query = Some [1]\<rparr>,
         \<lparr>expr_s = ''//a'', expr_q = Some [1]\<rparr>, [(0, 0), (0, 5)])
   \<and> nav_at [(0::nat, 5::nat), (0, 5)] (Some 1) = nav_at [(0::nat, 0::nat), (0, 5)] (Some 1)"
proof -
  have q: "expr_q \<lparr>expr_s = ''//a'', expr_q = Some [1::nat]\<rparr> = Some [1]" by simp
  have c: "query_Clone sample_env [1::nat] = [1]" by (simp add: sample_env_def)
  have a: "query_Evaluate sample_env [1] (Some 0) [(0, 0), (0, 5)] = (QQuery, [1], [(0, 0), (0, 5)])"
    by (simp add: sample_env_def)
  have s1: "query_Select sample_env [1] (node \<lparr>node = Some 0, query = Some [1::nat]\<rparr>)
       [(0, 0), (0, 5)] = (Some 1, [], [(0, 0), (0, 5)])"
    by (simp add: sample_env_def nav_at_def)
  note t = iterators_over_clones_of_stored_plan
    [OF q, of sample_env "Some 0" "[(0, 0), (0, 5)]"]
  from t c have 1: "Expr_Select sample_env \<lparr>expr_s = ''//a'', expr_q = Some [1]\<rparr> (Some 0)
     = Returns \<lparr>node = Some 0, query = Some [1]\<rparr>" by simp
  from t a c have 2: "Expr_Evaluate sample_env \<lparr>expr_s = ''//a'', expr_q = Some [1]\<rparr> (Some 0) [(0, 0), (0, 5)]
     = Returns (Iterator \<lparr>node = Some 0, query = Some [1]\<rparr>,
         \<lparr>expr_s = ''//a'', expr_q = Some [1]\<rparr>, [(0, 0), (0, 5)])" by simp
  from t have "query \<lparr>node = Some 0, query = Some [1::nat]\<rparr> = Some [1]
      \<and> query_Select sample_env [1] (node \<lparr>node = Some 0, query = Some [1::nat]\<rparr>) [(0, 0), (0, 5)]
          = (Some 1, [], [(0, 0), (0, 5)])
      \<and> NodeIterator_MoveNext sample_env \<lparr>node = Some 0, query = Some [1]\<rparr> [(0, 0), (0, 5)]
          = Returns (True, \<lparr>node = Some 0, query = Some []\<rparr>, [(0, 5), (0, 5)])
      \<and> 1 < length [(0::nat, 0::nat), (0, 5)] \<and> node \<lparr>node = Some 0, query = Some [1::nat]\<rparr> \<noteq> Some 1
      \<longrightarrow> nav_at [(0::nat, 5::nat), (0, 5)] (Some 1) = nav_at [(0::nat, 0::nat), (0, 5)] (Some 1)"
    by blast
  with s1 sample_MoveNext_first have 3: "nav_at [(0::nat, 5::nat), (0, 5)] (Some 1) = nav_at [(0::nat, 0::nat), (0, 5)] (Some 1)"
    by simp
  from 1 2 3 show ?thesis by simp
qed

text \<open>
  The claim as stated, that two evaluations from the same starting cursor share no
  iteration state and give identical content, fails: both selections of the expression
  compiled from \<open>''//a''\<close> from the navigator at address 0 return the same iterator value.
  The first, advanced on the store as the caller left it, finds a match and moves the
  shared navigator onto it; the second, advanced afterwards, starts from the moved
  navigator and finds nothing.
\<close>

theorem iterators_independent_counterexample:
  "Expr_Select sample_env \<lparr>expr_s = ''//a'', expr_q = Some [1]\<rparr> (Some 0)
     = Returns \<lparr>node = Some 0, query = Some [1]\<rparr>
   \<and> NodeIterator_MoveNext sample_env \<lparr>node = Some 0, query = Some [1]\<rparr> [(0, 0), (0, 5)]
     = Returns (True, \<lparr>node = Some 0, query = Some []\<rparr>, [(0, 5), (0, 5)])
   \<and> NodeIterator_MoveNext sample_env \<lparr>node = Some 0, query = Some [1]\<rparr> [(0, 5), (0, 5)]
     = Returns (False, \<lparr>node = Some 0, query = Some []\<rparr>, [(0, 5), (0, 5)])"
  using sample_Select sample_MoveNext_first sample_MoveNext_after by simp




text \<open>
  C9. When \<^verbatim>\<open>Compile\<close> returns an error, the package-level \<^verbatim>\<open>Select\<close> panics with that
  error as the panic value; when \<^verbatim>\<open>Compile\<close> returns an expression, \<^verbatim>\<open>Select\<close> returns
  what \<^verbatim>\<open>Expr.Select\<close> returns on it. \<^verbatim>\<open>Select\<close> returns normally exactly when
  \<^verbatim>\<open>Compile\<close> returns no error.
\<close>

theorem Select_panics_on_compile_error:
  "(\<forall>ex er g'. Compile build e g = (Returns (ex, Some er), g') \<longrightarrow>
        Select E build root e g = (Panics (PanicValue er), g'))
   \<and> (\<forall>c g'. Compile build e g = (Returns (Some c, None), g') \<longrightarrow>
        Select E build root e g = (Expr_Select E c root, g'))
   \<and> ((\<exists>it. fst (Select E build root e g) = Returns it)
        = (\<exists>ex. fst (Compile build e g) = Returns (ex, None)))"
proof -
  from Compile_cases [of build e g] show ?thesis
  proof
    assume "\<exists>c plan g'. Compile build e g = (Returns (Some c, None), g') \<and> expr_s c = e
        \<and> expr_q c = Some plan"
    then obtain c plan g' where c: "Compile build e g = (Returns (Some c, None), g')"
      and q: "expr_q c = Some plan" by blast
    then show ?thesis by (simp add: Select_def Expr_Select_def)
  next
    assume "\<exists>er g'. Compile build e g = (Returns (None, Some er), g')"
    then obtain er g' where c: "Compile build e g = (Returns (None, Some er), g')" by blast
    then show ?thesis by (simp add: Select_def)
  qed
qed

theorem Select_panics_on_compile_error_witness:
  "Select sample_env sample_build (Some 0) ''('' initial_globals
     = (Panics (PanicValue (Error ''syntax error'')), initial_globals)
   \<and> Select sample_env sample_build (Some 0) ''//a'' initial_globals
     = (Returns \<lparr>node = Some 0, query = Some [1]\<rparr>, initial_globals)"
proof -
  have c: "Compile sample_build ''('' initial_globals
      = (Returns (None, Some (Error ''syntax error'')), initial_globals)"
    by (simp add: Compile_def sample_compile_error)
  have d: "Compile sample_build ''//a'' initial_globals
      = (Returns (Some \<lparr>expr_s = ''//a'', expr_q = Some [1]\<rparr>, None), initial_globals)"
    by (simp add: Compile_def sample_compile_complete)
  from Select_panics_on_compile_error [of sample_build "''(''" initial_globals sample_env "Some 0"] c
  have 1: "Select sample_env sample_build (Some 0) ''('' initial_globals
     = (Panics (PanicValue (Error ''syntax error'')), initial_globals)"
    by blast
  from Select_panics_on_compile_error [of sample_build "''//a''" initial_globals sample_env "Some 0"] d
  have "Select sample_env sample_build (Some 0) ''//a'' initial_globals
     = (Expr_Select sample_env \<lparr>expr_s = ''//a'', expr_q = Some [1]\<rparr> (Some 0), initial_globals)"
    by blast
  with 1 sample_Select show ?thesis by simp
qed

text \<open>
  C10. Let the iterator hold a plan whose \<^verbatim>\<open>Select\<close> returns \<open>n\<close>. If \<open>n\<close> is nil,
  \<^verbatim>\<open>MoveNext\<close> returns false and \<^verbatim>\<open>Current\<close> is the navigator it was. If \<open>n\<close> is a match
  and the iterator holds a navigator, \<^verbatim>\<open>MoveNext\<close> returns true: when \<^verbatim>\<open>MoveTo\<close>
  succeeds the held navigator is kept and repositioned, and when it fails the iterator
  holds a fresh \<^verbatim>\<open>Copy\<close> of the match instead. In both cases, for navigators that keep the
  contract of the interface (a successful \<^verbatim>\<open>MoveTo\<close> takes the argument's position, a
  failed one keeps the receiver's, a \<^verbatim>\<open>Copy\<close> stands where its original does),
  \<^verbatim>\<open>Current\<close> afterwards stands at the position of the match.
\<close>

theorem MoveNext_behaviour:
  assumes "query t = Some plan"
    and "query_Select E plan (node t) \<sigma> = (n, plan', \<sigma>1)"
  shows "(n = None \<longrightarrow>
            NodeIterator_MoveNext E t \<sigma> = Returns (False, t\<lparr>query := Some plan'\<rparr>, \<sigma>1)
            \<and> NodeIterator_Current (t\<lparr>query := Some plan'\<rparr>) = NodeIterator_Current t)
       \<and> (\<forall>a b x y moved x'.
            n = Some b \<and> node t = Some a \<and> nav_at \<sigma>1 (Some a) = Some x
            \<and> nav_at \<sigma>1 (Some b) = Some y \<and> nav_MoveTo E x y = (moved, x') \<longrightarrow>
            (\<exists>t' \<sigma>'. NodeIterator_MoveNext E t \<sigma> = Returns (True, t', \<sigma>')
               \<and> (moved \<longrightarrow> t' = t\<lparr>query := Some plan'\<rparr> \<and> \<sigma>' = \<sigma>1[a := x'])
               \<and> (\<not> moved \<longrightarrow>
                    t' = t\<lparr>node := Some (length \<sigma>1), query := Some plan'\<rparr>
                    \<and> \<sigma>' = \<sigma>1[a := x'] @ [nav_Copy E (if a = b then x' else y)])
               \<and> (\<forall>pos. (\<forall>u v w. nav_MoveTo E u v = (True, w) \<longrightarrow> pos w = pos v)
                       \<and> (\<forall>u v w. nav_MoveTo E u v = (False, w) \<longrightarrow> pos w = pos u)
                       \<and> (\<forall>v. pos (nav_Copy E v) = pos v) \<longrightarrow>
                     (\<exists>z. nav_at \<sigma>' (NodeIterator_Current t') = Some z \<and> pos z = pos y))))"
proof (intro conjI impI allI)
  assume "n = None"
  with assms show "NodeIterator_MoveNext E t \<sigma> = Returns (False, t\<lparr>query := Some plan'\<rparr>, \<sigma>1)"
    by (simp add: MoveNext_exhausted)
next
  show "NodeIterator_Current (t\<lparr>query := Some plan'\<rparr>) = NodeIterator_Current t"
    by (simp add: NodeIterator_Current_def)
next
  fix a b x y moved x'
  assume h: "n = Some b \<and> node t = Some a \<and> nav_at \<sigma>1 (Some a) = Some x
            \<and> nav_at \<sigma>1 (Some b) = Some y \<and> nav_MoveTo E x y = (moved, x')"
  then have a: "a < length \<sigma>1" and xa: "\<sigma>1 ! a = x" and b: "b < length \<sigma>1" and yb: "\<sigma>1 ! b = y"
    by (auto simp: nav_at_def split: if_splits)
  show "\<exists>t' \<sigma>'. NodeIterator_MoveNext E t \<sigma> = Returns (True, t', \<sigma>')
               \<and> (moved \<longrightarrow> t' = t\<lparr>query := Some plan'\<rparr> \<and> \<sigma>' = \<sigma>1[a := x'])
               \<and> (\<not> moved \<longrightarrow>
                    t' = t\<lparr>node := Some (length \<sigma>1), query := Some plan'\<rparr>
                    \<and> \<sigma>' = \<sigma>1[a := x'] @ [nav_Copy E (if a = b then x' else y)])
               \<and> (\<forall>pos. (\<forall>u v w. nav_MoveTo E u v = (True, w) \<longrightarrow> pos w = pos v)
                       \<and> (\<forall>u v w. nav_MoveTo E u v = (False, w) \<longrightarrow> pos w = pos u)
                       \<and> (\<forall>v. pos (nav_Copy E v) = pos v) \<longrightarrow>
                     (\<exists>z. nav_at \<sigma>' (NodeIterator_Current t') = Some z \<and> pos z = pos y))"
  proof (cases moved)
    case True
    with h assms have m: "NodeIterator_MoveNext E t \<sigma>
        = Returns (True, t\<lparr>query := Some plan'\<rparr>, \<sigma>1[a := x'])"
      using MoveNext_moved [of t plan E \<sigma> b plan' \<sigma>1 a x y x'] by simp
    have "nav_at (\<sigma>1[a := x']) (NodeIterator_Current (t\<lparr>query := Some plan'\<rparr>)) = Some x'"
      using h a by (simp add: nav_at_def NodeIterator_Current_def)
    with m True h show ?thesis by auto
  next
    case False
    with h assms have m: "NodeIterator_MoveNext E t \<sigma>
       = Returns (True, t\<lparr>node := Some (length \<sigma>1), query := Some plan'\<rparr>,
           \<sigma>1[a := x'] @ [nav_Copy E (if a = b then x' else y)])"
      using MoveNext_copied [of t plan E \<sigma> b plan' \<sigma>1 a x y x'] by simp
    have c: "nav_at (\<sigma>1[a := x'] @ [nav_Copy E (if a = b then x' else y)])
          (NodeIterator_Current (t\<lparr>node := Some (length \<sigma>1), query := Some plan'\<rparr>))
        = Some (nav_Copy E (if a = b then x' else y))"
      by (simp add: nav_at_def NodeIterator_Current_def nth_append)
    from h False xa yb have "a = b \<longrightarrow> nav_MoveTo E y y = (False, x')"
      by auto
    with m c False show ?thesis by auto
  qed
qed

theorem MoveNext_behaviour_witness:
  "NodeIterator_MoveNext sample_env \<lparr>node = Some 0, query = Some []\<rparr> [(0, 0), (0, 5)]
     = Returns (False, \<lparr>node = Some 0, query = Some []\<rparr>, [(0, 0), (0, 5)])
   \<and> NodeIterator_MoveNext sample_env \<lparr>node = Some 0, query = Some [1]\<rparr> [(0, 0), (0, 5)]
     = Returns (True, \<lparr>node = Some 0, query = Some []\<rparr>, [(0, 5), (0, 5)])
   \<and> (\<exists>z. nav_at [(0::nat, 5::nat), (0, 5)] (NodeIterator_Current \<lparr>node = Some 0, query = Some ([]::nat list)\<rparr>)
          = Some z \<and> snd z = (5::nat))
   \<and> NodeIterator_MoveNext sample_env \<lparr>node = Some 0, query = Some [1]\<rparr> [(1, 0), (0, 5)]
     = Returns (True, \<lparr>node = Some 2, query = Some []\<rparr>, [(1, 0), (0, 5), (0, 5)])
   \<and> (\<exists>z. nav_at [(1::nat, 0::nat), (0, 5), (0, 5)]
            (NodeIterator_Current \<lparr>node = Some 2, query = Some ([]::nat list)\<rparr>)
          = Some z \<and> snd z = (5::nat))"
proof -
  let ?t0 = "\<lparr>node = Some 0, query = Some ([]::nat list)\<rparr>"
  let ?t1 = "\<lparr>node = Some 0, query = Some [1::nat]\<rparr>"
  let ?s = "[(0::nat, 0::nat), (0, 5)]"
  let ?s' = "[(1::nat, 0::nat), (0, 5)]"
  have q0: "query ?t0 = Some []" and q1: "query ?t1 = Some [1]" by simp_all
  have s0: "query_Select sample_env [] (node ?t0) ?s = (None, [], ?s)"
    by (simp add: sample_env_def)
  have s1: "query_Select sample_env [1] (node ?t1) ?s = (Some 1, [], ?s)"
    by (simp add: sample_env_def nav_at_def)
  have s2: "query_Select sample_env [1] (node ?t1) ?s' = (Some 1, [], ?s')"
    by (simp add: sample_env_def nav_at_def)
  have h1: "Some 1 = Some (1::nat) \<and> node ?t1 = Some 0 \<and> nav_at ?s (Some 0) = Some (0, 0)
      \<and> nav_at ?s (Some 1) = Some (0, 5) \<and> nav_MoveTo sample_env (0, 0) (0, 5) = (True, (0, 5))"
    by (simp add: nav_at_def sample_env_def)
  have h2: "Some 1 = Some (1::nat) \<and> node ?t1 = Some 0 \<and> nav_at ?s' (Some 0) = Some (1, 0)
      \<and> nav_at ?s' (Some 1) = Some (0, 5) \<and> nav_MoveTo sample_env (1, 0) (0, 5) = (False, (1, 0))"
    by (simp add: nav_at_def sample_env_def)
  have c: "nav_Copy sample_env (0::nat, 5::nat) = (0, 5)" by (simp add: sample_env_def)
  from MoveNext_behaviour [OF q0 s0]
  have 1: "NodeIterator_MoveNext sample_env ?t0 ?s = Returns (False, ?t0, ?s)"
    by simp
  from MoveNext_behaviour [OF q1 s1] h1
  obtain t' \<sigma>' where r: "NodeIterator_MoveNext sample_env ?t1 ?s = Returns (True, t', \<sigma>')"
    and m: "t' = ?t1\<lparr>query := Some []\<rparr> \<and> \<sigma>' = ?s[0 := (0, 5)]"
    and p: "\<forall>pos :: nat \<times> nat \<Rightarrow> nat.
               (\<forall>u v w. nav_MoveTo sample_env u v = (True, w) \<longrightarrow> pos w = pos v)
               \<and> (\<forall>u v w. nav_MoveTo sample_env u v = (False, w) \<longrightarrow> pos w = pos u)
               \<and> (\<forall>v. pos (nav_Copy sample_env v) = pos v) \<longrightarrow>
             (\<exists>z. nav_at \<sigma>' (NodeIterator_Current t') = Some z \<and> pos z = pos (0::nat, 5::nat))"
    by blast
  from p sample_contract
  have "\<exists>z. nav_at \<sigma>' (NodeIterator_Current t') = Some z \<and> snd z = snd (0::nat, 5::nat)"
    by blast
  with r m have 2: "NodeIterator_MoveNext sample_env ?t1 ?s = Returns (True, ?t0, [(0, 5), (0, 5)])"
    and 3: "\<exists>z. nav_at [(0::nat, 5::nat), (0, 5)] (NodeIterator_Current ?t0) = Some z \<and> snd z = (5::nat)"
    by simp_all
  from MoveNext_behaviour [OF q1 s2] h2
  obtain t'' \<sigma>'' where r': "NodeIterator_MoveNext sample_env ?t1 ?s' = Returns (True, t'', \<sigma>'')"
    and m': "t'' = ?t1\<lparr>node := Some (length ?s'), query := Some []\<rparr>
        \<and> \<sigma>'' = ?s'[0 := (1, 0)] @ [nav_Copy sample_env (if (0::nat) = 1 then (1, 0) else (0, 5))]"
    and p': "\<forall>pos :: nat \<times> nat \<Rightarrow> nat.
               (\<forall>u v w. nav_MoveTo sample_env u v = (True, w) \<longrightarrow> pos w = pos v)
               \<and> (\<forall>u v w. nav_MoveTo sample_env u v = (False, w) \<longrightarrow> pos w = pos u)
               \<and> (\<forall>v. pos (nav_Copy sample_env v) = pos v) \<longrightarrow>
             (\<exists>z. nav_at \<sigma>'' (NodeIterator_Current t'') = Some z \<and> pos z = pos (0::nat, 5::nat))"
    by blast
  from p' sample_contract
  have "\<exists>z. nav_at \<sigma>'' (NodeIterator_Current t'') = Some z \<and> snd z = snd (0::nat, 5::nat)"
    by blast
  with r' m' c
  have 4: "NodeIterator_MoveNext sample_env ?t1 ?s'
      = Returns (True, \<lparr>node = Some 2, query = Some []\<rparr>, [(1, 0), (0, 5), (0, 5)])"
    and 5: "\<exists>z. nav_at [(1::nat, 0::nat), (0, 5), (0, 5)]
            (NodeIterator_Current \<lparr>node = Some 2, query = Some ([]::nat list)\<rparr>)
          = Some z \<and> snd z = (5::nat)"
    by (simp_all add: numeral_2_eq_2)
  from 1 2 3 4 5 show ?thesis by blast
qed

end
